theory Spec2Isabelle
  imports Complex_Main
begin

section \<open>Numbers\<close>

text \<open>
  The program is JavaScript: every number is an IEEE-754 double. The embedding takes the
  values from \<^typ>\<open>real\<close> and writes \<open>+\<close>, \<open>*\<close>, \<open>/\<close>, \<open>abs\<close>, \<open>max\<close> and \<open>min\<close>
  where the source has them, so it describes the program in exact arithmetic. Two
  consequences are kept visible:
  \<^item> division by zero gives \<open>Infinity\<close> or \<open>NaN\<close> in JavaScript and \<open>0\<close> in HOL, so
    every statement that reads a quotient carries the hypothesis that its divisor is
    not zero;
  \<^item> the one place where a statement below is about exact equality of computed doubles
    (the temporal smoother) is defined over an explicit rounding function \<open>rnd\<close>
    applied after each \<open>+\<close> and \<open>/\<close>; exact arithmetic is the instance \<open>rnd = (\<lambda>x. x)\<close>.
\<close>

section \<open>Data model\<close>

text \<open>The object built by \<open>calculateFaceMetrics\<close> (and, averaged, by the smoother).\<close>

record FaceMetrics =
  faceWidth :: real
  faceHeight :: real
  faceWidthToImageRatio :: real
  faceHeightToImageRatio :: real
  faceCenterX :: real
  faceCenterY :: real
  imageWidth :: real
  imageHeight :: real
  timestamp :: real

text \<open>The status strings \<open>"no-face"\<close>, \<open>"too-far"\<close>, ... , \<open>"good"\<close>.\<close>

datatype AlignmentStatus =
  NoFace | TooFar | TooClose | TooLeft | TooRight | TooHigh | TooLow | Good

text \<open>
  \<open>config.calibrationFrame\<close>; its \<open>width\<close> and \<open>height\<close> entries are never read. The
  constructor fixes \<open>targetFaceRatio: 0.5\<close> and \<open>positionTolerance: 0.2\<close>.
\<close>

record CalibrationFrame =
  targetFaceRatio :: real
  positionTolerance :: real

text \<open>
  \<open>this.calibration\<close>. \<open>referenceFaceWidth\<close> and \<open>timestamp\<close> start as \<open>null\<close>
  (\<open>None\<close>); \<open>referenceFontSize\<close> is absent (\<open>None\<close>) until a calibration is made or
  loaded.
\<close>

record Calibration =
  isCalibrated :: bool
  referenceFaceWidth :: "real option"
  referenceDistance :: real
  referenceFontSize :: "real option"
  timestampC :: "real option"

text \<open>The object returned by \<open>calculateRelativeDistance\<close>.\<close>

record RelativeDistance =
  distance :: real
  offset :: real
  distanceRatio :: real
  faceWidthD :: real
  isCalibratedD :: bool

text \<open>The argument of the \<open>onCalibrationFrameStatus\<close> callback.\<close>

record FrameStatus =
  status :: AlignmentStatus
  faceRatio :: real
  idealRatio :: real
  positionX :: real
  positionY :: real

text \<open>
  The argument of the \<open>onDistanceUpdate\<close> callback: the relative distance with
  \<open>alignmentStatus\<close> and \<open>faceDetected\<close> added; the three numbers are \<open>null\<close> (\<open>None\<close>)
  in the sample sent when no face is seen.
\<close>

record DistanceData =
  distanceU :: "real option"
  offsetU :: "real option"
  distanceRatioU :: "real option"
  faceWidthU :: real
  isCalibratedU :: bool
  alignmentStatus :: AlignmentStatus
  faceDetected :: bool

text \<open>The exception thrown when a property of \<open>null\<close> or \<open>undefined\<close> is read.\<close>

datatype JsError = TypeError

text \<open>
  The state of a \<open>MediaPipeDistanceDetector\<close> that the distance pipeline reads or
  writes. The three callbacks of \<open>config\<close> are represented by the lists of the arguments
  they were called with, oldest first. \<open>maxHistorySize\<close> is \<open>config.smoothingWindow\<close>, a
  count (all three constructor calls pass 5).
\<close>

record Detector =
  distanceScale :: real
  calibrationFrame :: CalibrationFrame
  isRunning :: bool
  faceHistory :: "FaceMetrics list"
  maxHistorySize :: nat
  calibration :: Calibration
  lastCalibrationStatus :: "AlignmentStatus option"
  statusStabilityCounter :: nat
  statusStabilityThreshold :: nat
  distanceUpdates :: "DistanceData list"
  frameStatusEvents :: "FrameStatus list"
  errorsReported :: "JsError list"

text \<open>
  The constructor. \<open>config.smoothingWindow || 5\<close> and \<open>config.distanceScale || 100\<close>:
  an absent option (\<open>None\<close>) and the falsy value \<open>0\<close> both give the default.
\<close>

definition orDefault :: "'a::zero option \<Rightarrow> 'a \<Rightarrow> 'a" where
  "orDefault v d = (case v of None \<Rightarrow> d | Some x \<Rightarrow> if x = 0 then d else x)"

definition uncalibrated :: Calibration where
  "uncalibrated =
     \<lparr>isCalibrated = False, referenceFaceWidth = None, referenceDistance = 0,
      referenceFontSize = None, timestampC = None\<rparr>"

definition newDetector :: "nat option \<Rightarrow> real option \<Rightarrow> Detector" where
  "newDetector smoothingWindow scale =
     \<lparr>distanceScale = orDefault scale 100,
      calibrationFrame = \<lparr>targetFaceRatio = 0.5, positionTolerance = 0.2\<rparr>,
      isRunning = False,
      faceHistory = [],
      maxHistorySize = orDefault smoothingWindow 5,
      calibration = uncalibrated,
      lastCalibrationStatus = None,
      statusStabilityCounter = 0,
      statusStabilityThreshold = 3,
      distanceUpdates = [],
      frameStatusEvents = [],
      errorsReported = []\<rparr>"

section \<open>Temporal smoother\<close>

text \<open>
  \<open>addToFaceHistory\<close>: push, then shift the oldest entry out while the buffer is longer
  than \<open>maxHistorySize\<close>.
\<close>

fun evict :: "nat \<Rightarrow> 'a list \<Rightarrow> 'a list" where
  "evict n [] = []"
| "evict n (x # xs) = (if length (x # xs) > n then evict n xs else x # xs)"

definition addToFaceHistory :: "FaceMetrics \<Rightarrow> Detector \<Rightarrow> Detector" where
  "addToFaceHistory metrics det =
     det\<lparr>faceHistory := evict (maxHistorySize det) (faceHistory det @ [metrics])\<rparr>"

text \<open>
  \<open>getSmoothedFaceMetrics\<close>, with the rounding of the additions of the \<open>for\<close> loop and
  of the six divisions made explicit. The loop is the left fold \<open>accumulate\<close>, starting
  from the \<open>0\<close> the object literal holds. \<open>imageWidth\<close>, \<open>imageHeight\<close> and \<open>timestamp\<close>
  are read from \<open>faceHistory[count - 1]\<close>.
\<close>

definition accumulate ::
  "(real \<Rightarrow> real) \<Rightarrow> (FaceMetrics \<Rightarrow> real) \<Rightarrow> FaceMetrics list \<Rightarrow> real" where
  "accumulate rnd field history = foldl (\<lambda>acc m. rnd (acc + field m)) 0 history"

definition smoothWith :: "(real \<Rightarrow> real) \<Rightarrow> FaceMetrics list \<Rightarrow> FaceMetrics option" where
  "smoothWith rnd history =
     (if length history = 0 then None
      else
        let count = real (length history);
            newest = last history
        in Some
          \<lparr>faceWidth = rnd (accumulate rnd faceWidth history / count),
           faceHeight = rnd (accumulate rnd faceHeight history / count),
           faceWidthToImageRatio =
             rnd (accumulate rnd faceWidthToImageRatio history / count),
           faceHeightToImageRatio =
             rnd (accumulate rnd faceHeightToImageRatio history / count),
           faceCenterX = rnd (accumulate rnd faceCenterX history / count),
           faceCenterY = rnd (accumulate rnd faceCenterY history / count),
           imageWidth = imageWidth newest,
           imageHeight = imageHeight newest,
           timestamp = timestamp newest\<rparr>)"

text \<open>The smoother in exact arithmetic, as the rest of the pipeline model uses it.\<close>

definition getSmoothedFaceMetrics :: "Detector \<Rightarrow> FaceMetrics option" where
  "getSmoothedFaceMetrics det = smoothWith (\<lambda>x. x) (faceHistory det)"

section \<open>Alignment classifier\<close>

text \<open>
  The status decision of \<open>checkCalibrationFrameAlignment\<close> for metrics that are present
  (the six flags, then the \<open>if\<close>/\<open>else if\<close> chain).
\<close>

definition alignmentDecision :: "CalibrationFrame \<Rightarrow> FaceMetrics \<Rightarrow> AlignmentStatus" where
  "alignmentDecision frame faceMetrics =
     (let idealFaceRatio = targetFaceRatio frame;
          currentFaceRatio = faceWidthToImageRatio faceMetrics;
          posTolerance = positionTolerance frame;
          isTooLeft = faceCenterX faceMetrics < - posTolerance;
          isTooRight = faceCenterX faceMetrics > posTolerance;
          isTooHigh = faceCenterY faceMetrics < - posTolerance;
          isTooLow = faceCenterY faceMetrics > posTolerance;
          isTooFar = currentFaceRatio < idealFaceRatio - idealFaceRatio * 0.5;
          isTooClose = currentFaceRatio > idealFaceRatio + idealFaceRatio * 0.5
      in if isTooFar then TooFar
         else if isTooClose then TooClose
         else if isTooLeft then TooLeft
         else if isTooRight then TooRight
         else if isTooHigh then TooHigh
         else if isTooLow then TooLow
         else Good)"

text \<open>
  \<open>checkCalibrationFrameAlignment\<close>: the returned status and the detector afterwards.
  Absent metrics return \<open>"no-face"\<close> at once. Otherwise a changed status resets the
  counter and is remembered; an unchanged one increments the counter and, when the
  counter has reached the threshold, calls \<open>onCalibrationFrameStatus\<close>.
\<close>

definition checkCalibrationFrameAlignment ::
  "FaceMetrics option \<Rightarrow> Detector \<Rightarrow> AlignmentStatus \<times> Detector" where
  "checkCalibrationFrameAlignment faceMetrics det =
     (case faceMetrics of
        None \<Rightarrow> (NoFace, det)
      | Some m \<Rightarrow>
          let st = alignmentDecision (calibrationFrame det) m in
          if lastCalibrationStatus det \<noteq> Some st then
            (st, det\<lparr>statusStabilityCounter := 0, lastCalibrationStatus := Some st\<rparr>)
          else
            let det1 = det\<lparr>statusStabilityCounter := statusStabilityCounter det + 1\<rparr> in
            if statusStabilityCounter det1 \<ge> statusStabilityThreshold det1 then
              (st, det1\<lparr>frameStatusEvents := frameStatusEvents det1 @
                 [\<lparr>status = st,
                   faceRatio = faceWidthToImageRatio m,
                   idealRatio = targetFaceRatio (calibrationFrame det),
                   positionX = faceCenterX m,
                   positionY = faceCenterY m\<rparr>]\<rparr>)
            else (st, det1))"

section \<open>Relative distance\<close>

text \<open>
  \<open>calculateRelativeDistance\<close>. A \<open>null\<close> reference width converts to the number \<open>0\<close>
  in the division.
\<close>

definition toNumber :: "real option \<Rightarrow> real" where
  "toNumber v = (case v of None \<Rightarrow> 0 | Some x \<Rightarrow> x)"

definition calculateRelativeDistance :: "FaceMetrics option \<Rightarrow> Detector \<Rightarrow> RelativeDistance" where
  "calculateRelativeDistance faceMetrics det =
     (case faceMetrics of
        None \<Rightarrow>
          \<lparr>distance = 0, offset = 0, distanceRatio = 1, faceWidthD = 0,
           isCalibratedD = False\<rparr>
      | Some m \<Rightarrow>
          if \<not> isCalibrated (calibration det) then
            \<lparr>distance = 0, offset = 0, distanceRatio = 1, faceWidthD = faceWidth m,
             isCalibratedD = False\<rparr>
          else
            let ratio = faceWidth m / toNumber (referenceFaceWidth (calibration det));
                relativeDistance = (1 / ratio - 1) * distanceScale det
            in \<lparr>distance = relativeDistance, offset = relativeDistance,
                distanceRatio = ratio, faceWidthD = faceWidth m,
                isCalibratedD = True\<rparr>)"

section \<open>Face metrics and the frame pipeline\<close>

text \<open>A landmark of the face mesh: its normalised \<open>x\<close> and \<open>y\<close> (\<open>z\<close> is never read).\<close>

datatype Landmark = Landmark (landmarkX: real) (landmarkY: real)

text \<open>An array read: \<open>undefined\<close> (\<open>None\<close>) beyond the end.\<close>

definition element :: "'a list \<Rightarrow> nat \<Rightarrow> 'a option" where
  "element xs i = (if i < length xs then Some (xs ! i) else None)"

text \<open>
  \<open>calculateFaceMetrics\<close>, with \<open>Date.now()\<close> as \<open>now\<close>. Reading \<open>.x\<close> or \<open>.y\<close>
  of a landmark that is \<open>undefined\<close> throws a \<open>TypeError\<close>. The nose tip
  (\<open>landmarks[4]\<close>) is fetched and never used.
\<close>

definition calculateFaceMetrics ::
  "real \<Rightarrow> Landmark list \<Rightarrow> real \<Rightarrow> real \<Rightarrow> JsError + FaceMetrics" where
  "calculateFaceMetrics now landmarks imgWidth imgHeight =
     (case (element landmarks 234, element landmarks 454,
            element landmarks 10, element landmarks 152) of
        (Some leftEar, Some rightEar, Some forehead, Some chin) \<Rightarrow>
          let fWidth = \<bar>(landmarkX rightEar - landmarkX leftEar) * imgWidth\<bar>;
              fHeight = \<bar>(landmarkY chin - landmarkY forehead) * imgHeight\<bar>;
              centerX = (landmarkX rightEar + landmarkX leftEar) / 2;
              centerY = (landmarkY chin + landmarkY forehead) / 2;
              normalizedX = (centerX - 0.5) * 2;
              normalizedY = (centerY - 0.5) * 2
          in Inr \<lparr>faceWidth = fWidth,
                  faceHeight = fHeight,
                  faceWidthToImageRatio = fWidth / imgWidth,
                  faceHeightToImageRatio = fHeight / imgHeight,
                  faceCenterX = normalizedX,
                  faceCenterY = normalizedY,
                  imageWidth = imgWidth,
                  imageHeight = imgHeight,
                  timestamp = now\<rparr>
      | _ \<Rightarrow> Inl TypeError)"

text \<open>
  \<open>handleNoFaceDetected\<close>: once the newest buffered sample is more than 500 ms old
  (or there is none), clear the buffer and call both callbacks with the no-face
  values.
\<close>

definition handleNoFaceDetected :: "real \<Rightarrow> Detector \<Rightarrow> Detector" where
  "handleNoFaceDetected now det =
     (let lastDetectedFace =
            (if length (faceHistory det) > 0 then timestamp (last (faceHistory det)) else 0)
      in if now - lastDetectedFace > 500 then
           det\<lparr>faceHistory := [],
               distanceUpdates := distanceUpdates det @
                 [\<lparr>distanceU = None, offsetU = None, distanceRatioU = None,
                   faceWidthU = 0,
                   isCalibratedU = isCalibrated (calibration det),
                   alignmentStatus = NoFace, faceDetected = False\<rparr>],
               frameStatusEvents := frameStatusEvents det @
                 [\<lparr>status = NoFace, faceRatio = 0,
                   idealRatio = targetFaceRatio (calibrationFrame det),
                   positionX = 0, positionY = 0\<rparr>]\<rparr>
         else det)"

text \<open>
  The argument of \<open>processFaceMeshResults\<close>: \<open>results.multiFaceLandmarks\<close> (absent is
  \<open>None\<close>) and the size of \<open>results.image\<close>.
\<close>

record FaceMeshResults =
  multiFaceLandmarks :: "Landmark list list option"
  imageW :: real
  imageH :: real

text \<open>
  \<open>processFaceMeshResults\<close>, with \<open>Date.now()\<close> as \<open>now\<close>: nothing unless the detector
  runs; the no-face path when there are no landmarks; otherwise extract, buffer,
  smooth, classify, compute the distance and call \<open>onDistanceUpdate\<close>. An exception is
  caught and handed to \<open>onError\<close>. The callbacks are taken not to throw.
\<close>

definition processFaceMeshResults ::
  "real \<Rightarrow> FaceMeshResults option \<Rightarrow> Detector \<Rightarrow> Detector" where
  "processFaceMeshResults now results det =
     (if \<not> isRunning det then det
      else
        case results of
          None \<Rightarrow> handleNoFaceDetected now det
        | Some r \<Rightarrow>
            (case multiFaceLandmarks r of
               None \<Rightarrow> handleNoFaceDetected now det
             | Some [] \<Rightarrow> handleNoFaceDetected now det
             | Some (landmarks # others) \<Rightarrow>
                 (case calculateFaceMetrics now landmarks (imageW r) (imageH r) of
                    Inl e \<Rightarrow> det\<lparr>errorsReported := errorsReported det @ [e]\<rparr>
                  | Inr metrics \<Rightarrow>
                      let det1 = addToFaceHistory metrics det;
                          smoothedMetrics = getSmoothedFaceMetrics det1;
                          (st, det2) = checkCalibrationFrameAlignment smoothedMetrics det1;
                          d = calculateRelativeDistance smoothedMetrics det2
                      in det2\<lparr>distanceUpdates := distanceUpdates det2 @
                           [\<lparr>distanceU = Some (distance d),
                             offsetU = Some (offset d),
                             distanceRatioU = Some (distanceRatio d),
                             faceWidthU = faceWidthD d,
                             isCalibratedU = isCalibratedD d,
                             alignmentStatus = st,
                             faceDetected = True\<rparr>]\<rparr>)))"

text \<open>
  A run of the classifier over the inputs of successive frames, as the frame loop and
  \<open>calibrate\<close> call it one after the other.
\<close>

fun classifyFrames :: "FaceMetrics option list \<Rightarrow> Detector \<Rightarrow> Detector" where
  "classifyFrames [] det = det"
| "classifyFrames (f # fs) det = classifyFrames fs (snd (checkCalibrationFrameAlignment f det))"

text \<open>The buffer after a stream of samples.\<close>

fun addAllToFaceHistory :: "FaceMetrics list \<Rightarrow> Detector \<Rightarrow> Detector" where
  "addAllToFaceHistory [] det = det"
| "addAllToFaceHistory (m # ms) det = addAllToFaceHistory ms (addToFaceHistory m det)"

text \<open>The frame loop: the results of successive frames, each with its time.\<close>

fun processFrames :: "(real \<times> FaceMeshResults option) list \<Rightarrow> Detector \<Rightarrow> Detector" where
  "processFrames [] det = det"
| "processFrames ((now, results) # rest) det =
     processFrames rest (processFaceMeshResults now results det)"

section \<open>Calibration\<close>

text \<open>
  The messages of the errors \<open>calibrate\<close> throws, by their meaning: "no face detected,
  cannot calibrate"; "adjust position and distance" (the initial value of
  \<open>errorMessage\<close>, kept when no \<open>case\<close> of the \<open>switch\<close> matches); "move closer"; "move
  away"; "move right"; "move left"; "move down"; "move up".
\<close>

datatype CalibrationError =
  NoFaceDetected | AdjustPosition | MoveCloser | MoveAway
  | MoveRight | MoveLeft | MoveDown | MoveUp

definition errorMessage :: "AlignmentStatus \<Rightarrow> CalibrationError" where
  "errorMessage alignment =
     (case alignment of
        TooFar \<Rightarrow> MoveCloser
      | TooClose \<Rightarrow> MoveAway
      | TooLeft \<Rightarrow> MoveRight
      | TooRight \<Rightarrow> MoveLeft
      | TooHigh \<Rightarrow> MoveDown
      | TooLow \<Rightarrow> MoveUp
      | _ \<Rightarrow> AdjustPosition)"

text \<open>
  \<open>localStorage\<close>: the item under a key, here the calibration object whose JSON text
  \<open>calibrate\<close> stores.
\<close>

type_synonym Storage = "string \<rightharpoonup> Calibration"

text \<open>
  \<open>calibrate(fontSize = 16)\<close>, with \<open>Date.now()\<close> as \<open>now\<close>; an omitted argument is
  \<open>None\<close>. The result is the rejection (\<open>Inl\<close>) or the calibration the promise
  resolves to, with the detector and the storage afterwards.
\<close>

definition calibrate ::
  "real \<Rightarrow> real option \<Rightarrow> Detector \<times> Storage \<Rightarrow>
   (CalibrationError + Calibration) \<times> Detector \<times> Storage" where
  "calibrate now fontSizeArg sys =
     (let det = fst sys; store = snd sys;
          fontSize = (case fontSizeArg of None \<Rightarrow> 16 | Some v \<Rightarrow> v)
      in case getSmoothedFaceMetrics det of
           None \<Rightarrow> (Inl NoFaceDetected, det, store)
         | Some metrics \<Rightarrow>
             let (alignment, det1) = checkCalibrationFrameAlignment (Some metrics) det in
             if alignment \<noteq> Good then (Inl (errorMessage alignment), det1, store)
             else
               let c = \<lparr>isCalibrated = True,
                        referenceFaceWidth = Some (faceWidth metrics),
                        referenceDistance = 0,
                        referenceFontSize = Some fontSize,
                        timestampC = Some now\<rparr>
               in (Inr c, det1\<lparr>calibration := c\<rparr>, store(''mediapipe-calibration'' \<mapsto> c)))"

text \<open>
  What \<open>loadCalibration\<close> is given: a string (parsed with \<open>JSON.parse\<close>) or a value.
  A value is an object with the four properties read here, each \<open>undefined\<close>, \<open>null\<close>
  or a number, or it is not an object (\<open>null\<close>, \<open>undefined\<close>, a number, a boolean, a
  string). Properties of other types are outside the model.
\<close>

datatype JsValue = Undefined | Null | Number real

record CalibrationData =
  dataReferenceFaceWidth :: JsValue
  dataReferenceDistance :: JsValue
  dataReferenceFontSize :: JsValue
  dataTimestamp :: JsValue

datatype JsData = NotAnObject | Object CalibrationData

datatype CalibrationInput = Text string | Parsed JsData

text \<open>Truthiness of a property, and \<open>v || d\<close> on a number property.\<close>

definition truthy :: "JsValue \<Rightarrow> bool" where
  "truthy v = (case v of Number x \<Rightarrow> x \<noteq> 0 | _ \<Rightarrow> False)"

definition orElse :: "JsValue \<Rightarrow> real \<Rightarrow> real" where
  "orElse v d = (case v of Number x \<Rightarrow> if x \<noteq> 0 then x else d | _ \<Rightarrow> d)"

text \<open>
  \<open>loadCalibration\<close>; \<open>parseJSON\<close> stands for \<open>JSON.parse\<close>, \<open>None\<close> when it throws.
  The result is the returned boolean and the detector afterwards.
\<close>

definition loadCalibration ::
  "(string \<Rightarrow> JsData option) \<Rightarrow> CalibrationInput \<Rightarrow> Detector \<Rightarrow> bool \<times> Detector" where
  "loadCalibration parseJSON calibrationData det =
     (case (case calibrationData of Text s \<Rightarrow> parseJSON s | Parsed v \<Rightarrow> Some v) of
        None \<Rightarrow> (False, det)
      | Some NotAnObject \<Rightarrow> (False, det)
      | Some (Object parsedData) \<Rightarrow>
          if dataReferenceFaceWidth parsedData = Undefined \<or> \<not> truthy (dataTimestamp parsedData)
          then (False, det)
          else
            (True,
             det\<lparr>calibration :=
               \<lparr>isCalibrated = True,
                referenceFaceWidth =
                  (case dataReferenceFaceWidth parsedData of Number w \<Rightarrow> Some w | _ \<Rightarrow> None),
                referenceDistance = orElse (dataReferenceDistance parsedData) 0,
                referenceFontSize = Some (orElse (dataReferenceFontSize parsedData) 16),
                timestampC =
                  (case dataTimestamp parsedData of Number t \<Rightarrow> Some t | _ \<Rightarrow> None)\<rparr>\<rparr>))"

text \<open>
  The other writers of the detector's state: \<open>startDetectionLoop\<close> and \<open>cleanup\<close>, and
  the calibration dialog, which resets the calibration (\<open>resetCalibration\<close>) and sets
  the stability threshold to 1 after starting the camera.
\<close>

definition startDetectionLoop :: "Detector \<Rightarrow> Detector" where
  "startDetectionLoop det = det\<lparr>isRunning := True\<rparr>"

definition cleanup :: "Detector \<Rightarrow> Detector" where
  "cleanup det = det\<lparr>isRunning := False, faceHistory := []\<rparr>"

definition resetCalibration :: "Detector \<Rightarrow> Detector" where
  "resetCalibration det = det\<lparr>calibration := uncalibrated\<rparr>"

definition dialogThreshold :: "Detector \<Rightarrow> Detector" where
  "dialogThreshold det = det\<lparr>statusStabilityThreshold := 1\<rparr>"

text \<open>
  The states a detector reaches from its constructor when every frame it is given
  has an image of positive width and height and every record \<open>loadCalibration\<close> is
  given holds a positive number as its reference width.
\<close>

inductive reachable :: "Detector \<Rightarrow> bool" where
  constructed: "reachable (newDetector smoothingWindow scale)"
| started: "reachable det \<Longrightarrow> reachable (startDetectionLoop det)"
| cleaned: "reachable det \<Longrightarrow> reachable (cleanup det)"
| threshold: "reachable det \<Longrightarrow> reachable (dialogThreshold det)"
| reset: "reachable det \<Longrightarrow> reachable (resetCalibration det)"
| no_results: "reachable det \<Longrightarrow> reachable (processFaceMeshResults now None det)"
| frame: "reachable det \<Longrightarrow> 0 < imageW r \<Longrightarrow> 0 < imageH r \<Longrightarrow>
          reachable (processFaceMeshResults now (Some r) det)"
| calibrated: "reachable det \<Longrightarrow>
          reachable (fst (snd (calibrate now fontSizeArg (det, store))))"
| loaded: "reachable det \<Longrightarrow>
          (case calibrationData of
             Text s \<Rightarrow> parseJSON s | Parsed v \<Rightarrow> Some v) = Some (Object parsedData) \<Longrightarrow>
          dataReferenceFaceWidth parsedData = Number w \<Longrightarrow> 0 < w \<Longrightarrow>
          reachable (snd (loadCalibration parseJSON calibrationData det))"
| load_refused: "reachable det \<Longrightarrow>
          fst (loadCalibration parseJSON calibrationData det) = False \<Longrightarrow>
          reachable (snd (loadCalibration parseJSON calibrationData det))"

text \<open>
  A sample as \<open>calculateFaceMetrics\<close> builds it from a frame of positive width: the
  width is not negative and the ratio is the width over the image width.
\<close>

definition extracted :: "FaceMetrics \<Rightarrow> bool" where
  "extracted m \<longleftrightarrow>
     0 \<le> faceWidth m \<and> 0 < imageWidth m \<and>
     faceWidthToImageRatio m = faceWidth m / imageWidth m"

text \<open>
  The invariant of the reachable states: the buffer holds extracted samples, the
  target ratio is positive, and a calibrated state has a positive reference width.
\<close>

definition calibrationSound :: "Detector \<Rightarrow> bool" where
  "calibrationSound det \<longleftrightarrow>
     list_all extracted (faceHistory det) \<and>
     0 < targetFaceRatio (calibrationFrame det) \<and>
     (if isCalibrated (calibration det)
      then (case referenceFaceWidth (calibration det) of None \<Rightarrow> False | Some r \<Rightarrow> 0 < r)
      else True)"

section \<open>Presentation mapper: font size\<close>





section \<open>Presentation mapper: contrast\<close>

text \<open>
  \<open>calculateContrastAdjustment\<close>; a \<open>null\<close> distance throws in the log line before the
  \<open>return\<close>.
\<close>

definition calculateContrastAdjustment :: "real option \<Rightarrow> JsError + real" where
  "calculateContrastAdjustment distanceArg =
     (case distanceArg of
        None \<Rightarrow> Inl TypeError
      | Some dst \<Rightarrow>
          let scale = 2.0;
              normalizedDistance = (dst * scale) / 100;
              minRatio = 3.5;
              maxRatio = 9.0;
              baseRatio = 6.0;
              targetRatio =
                (if normalizedDistance \<le> 0 then
                   let factor = max (- 1) (normalizedDistance / 0.5)
                   in baseRatio + (minRatio - baseRatio) * \<bar>factor\<bar>
                 else
                   let factor = min 1 (normalizedDistance / 0.5)
                   in baseRatio + (maxRatio - baseRatio) * factor)
          in Inr (max minRatio (min maxRatio targetRatio)))"

text \<open>
  \<open>parseInt(s, 16)\<close> on a string of ASCII characters: leading white space, a sign, a
  \<open>0x\<close> prefix, then the longest run of hexadecimal digits; \<open>NaN\<close> (\<open>None\<close>) when the
  run is empty.
\<close>

definition isWhiteSpace :: "char \<Rightarrow> bool" where
  "isWhiteSpace c = (c \<in> set [CHR '' '', CHR 0x09, CHR 0x0A, CHR 0x0B, CHR 0x0C, CHR 0x0D])"

definition hexDigit :: "char \<Rightarrow> nat option" where
  "hexDigit c =
     (let n = of_char c :: nat in
      if 48 \<le> n \<and> n \<le> 57 then Some (n - 48)
      else if 65 \<le> n \<and> n \<le> 70 then Some (n - 55)
      else if 97 \<le> n \<and> n \<le> 102 then Some (n - 87)
      else None)"

definition isHexDigit :: "char \<Rightarrow> bool" where
  "isHexDigit c = (hexDigit c \<noteq> None)"

definition hexValue :: "string \<Rightarrow> nat" where
  "hexValue ds = foldl (\<lambda>acc c. 16 * acc + (case hexDigit c of Some d \<Rightarrow> d | None \<Rightarrow> 0)) 0 ds"

definition parseInt16 :: "string \<Rightarrow> int option" where
  "parseInt16 s =
     (let s1 = dropWhile isWhiteSpace s;
          negative = (s1 \<noteq> [] \<and> hd s1 = CHR ''-'');
          s2 = (if s1 \<noteq> [] \<and> (hd s1 = CHR ''-'' \<or> hd s1 = CHR ''+'') then tl s1 else s1);
          s3 = (if take 2 s2 = ''0x'' \<or> take 2 s2 = ''0X'' then drop 2 s2 else s2);
          digits = takeWhile isHexDigit s3
      in if digits = [] then None
         else Some (if negative then - int (hexValue digits) else int (hexValue digits)))"

text \<open>\<open>hex.substr(start, len)\<close>.\<close>

definition substr :: "string \<Rightarrow> nat \<Rightarrow> nat \<Rightarrow> string" where
  "substr s start len = take len (drop start s)"

text \<open>
  \<open>calculateRelativeLuminance\<close>: \<open>NaN\<close> (\<open>None\<close>) as soon as one channel does not
  parse. \<open>Math.pow\<close> is only reached with a positive base, where it is \<open>powr\<close>.
\<close>

definition linearize :: "real \<Rightarrow> real" where
  "linearize c = (if c \<le> 0.03928 then c / 12.92 else ((c + 0.055) / 1.055) powr 2.4)"

definition calculateRelativeLuminance :: "string \<Rightarrow> real option" where
  "calculateRelativeLuminance hex =
     (case (parseInt16 (substr hex 1 2), parseInt16 (substr hex 3 2),
            parseInt16 (substr hex 5 2)) of
        (Some ri, Some gi, Some bi) \<Rightarrow>
          let r = real_of_int ri / 255;
              g = real_of_int gi / 255;
              b = real_of_int bi / 255
          in Some (0.2126 * linearize r + 0.7152 * linearize g + 0.0722 * linearize b)
      | _ \<Rightarrow> None)"

definition calculateContrastRatio :: "string \<Rightarrow> string \<Rightarrow> real option" where
  "calculateContrastRatio color1 color2 =
     (case (calculateRelativeLuminance color1, calculateRelativeLuminance color2) of
        (Some l1, Some l2) \<Rightarrow>
          let lighter = max l1 l2;
              darker = min l1 l2
          in Some ((lighter + 0.05) / (darker + 0.05))
      | _ \<Rightarrow> None)"

text \<open>A colour string of the form \<open>#rrggbb\<close>.\<close>

definition isHexColor :: "string \<Rightarrow> bool" where
  "isHexColor s =
     (case s of
        [] \<Rightarrow> False
      | c # rest \<Rightarrow> c = CHR ''#'' \<and> length rest = 6 \<and> list_all isHexDigit rest)"

section \<open>Rounding to a double\<close>

text \<open>
  Round to nearest, ties to even, at 53 significant bits: the rounding of every
  arithmetic operation on doubles, for results in the normal range (overflow and
  subnormal results are not represented).
\<close>

definition roundHalfEven :: "real \<Rightarrow> int" where
  "roundHalfEven q =
     (let f = \<lfloor>q\<rfloor>; d = q - of_int f
      in if d < 1 / 2 then f else if d > 1 / 2 then f + 1 else if even f then f else f + 1)"

definition binary64 :: "real \<Rightarrow> real" where
  "binary64 x =
     (if x = 0 then 0
      else let e = \<lfloor>log 2 \<bar>x\<bar>\<rfloor> - 52
           in of_int (roundHalfEven (x / 2 powi e)) * 2 powi e)"

section \<open>Example values\<close>

text \<open>A well-aligned sample of a 640 by 480 frame, and a detector calibrated at a width.\<close>

definition nominal :: FaceMetrics where
  "nominal =
     \<lparr>faceWidth = 320, faceHeight = 384, faceWidthToImageRatio = 0.5,
      faceHeightToImageRatio = 0.8, faceCenterX = 0, faceCenterY = 0,
      imageWidth = 640, imageHeight = 480, timestamp = 1000\<rparr>"

definition calibratedAt :: "real \<Rightarrow> Detector" where
  "calibratedAt r =
     (newDetector None None)
       \<lparr>calibration :=
          \<lparr>isCalibrated = True, referenceFaceWidth = Some r, referenceDistance = 0,
           referenceFontSize = Some 16, timestampC = Some 1\<rparr>\<rparr>"




text \<open>
  A face-mesh result for a 640 by 480 frame whose five landmarks give the sample
  \<open>nominal\<close>, and a stored calibration record with a given reference width.
\<close>

definition centredFace :: "Landmark list" where
  "centredFace =
     (replicate 468 (Landmark 0.5 0.5))
       [234 := Landmark 0.25 0.5, 454 := Landmark 0.75 0.5,
        10 := Landmark 0.5 0.1, 152 := Landmark 0.5 0.9]"

definition centredFrame :: FaceMeshResults where
  "centredFrame = \<lparr>multiFaceLandmarks = Some [centredFace], imageW = 640, imageH = 480\<rparr>"

definition storedWithWidth :: "real \<Rightarrow> CalibrationData" where
  "storedWithWidth w =
     \<lparr>dataReferenceFaceWidth = Number w, dataReferenceDistance = Number 0,
      dataReferenceFontSize = Number 16, dataTimestamp = Number 1700000000000\<rparr>"

text \<open>
  A sample all of whose fields are doubles; its \<open>faceCenterX\<close> is the double written
  \<open>0.11\<close>.
\<close>

definition offCentre :: FaceMetrics where
  "offCentre =
     \<lparr>faceWidth = 320, faceHeight = 360, faceWidthToImageRatio = 0.5,
      faceHeightToImageRatio = 0.75, faceCenterX = 7926335344172073 / 2 ^ 56,
      faceCenterY = 0, imageWidth = 640, imageHeight = 480, timestamp = 1000\<rparr>"

section \<open>Properties\<close>

subsection \<open>Alignment classifier: precedence\<close>

text \<open>The decision with the two ratio thresholds as multiples of the target.\<close>

lemma alignmentDecision_chain:
  "alignmentDecision frame m =
     (if faceWidthToImageRatio m < targetFaceRatio frame * 0.5 then TooFar
      else if faceWidthToImageRatio m > targetFaceRatio frame * 1.5 then TooClose
      else if faceCenterX m < - positionTolerance frame then TooLeft
      else if faceCenterX m > positionTolerance frame then TooRight
      else if faceCenterY m < - positionTolerance frame then TooHigh
      else if faceCenterY m > positionTolerance frame then TooLow
      else Good)"
proof -
  have "targetFaceRatio frame - targetFaceRatio frame * 0.5 = targetFaceRatio frame * 0.5"
    and "targetFaceRatio frame + targetFaceRatio frame * 0.5 = targetFaceRatio frame * 1.5"
    by simp_all
  then show ?thesis
    unfolding alignmentDecision_def Let_def by simp
qed

lemma check_returns_decision:
  "fst (checkCalibrationFrameAlignment input det) =
     (case input of None \<Rightarrow> NoFace | Some m \<Rightarrow> alignmentDecision (calibrationFrame det) m)"
  by (simp add: checkCalibrationFrameAlignment_def Let_def split: option.split)

text \<open>
  C3. For every input the classifier returns the one status picked by first match in
  the order no-face, too-far (ratio below half the target), too-close (ratio above one
  and a half times the target), too-left, too-right, too-high, too-low, good. With a
  positive target ratio and a non-negative tolerance (the constructor's are \<open>0.5\<close> and
  \<open>0.2\<close>): ratio equal to the target with centre \<open>(0, 0)\<close> is good, ratio \<open>0.4\<close> times
  the target is too-far, and centre \<open>x = tolerance + 0.01\<close> with the other fields
  nominal is too-right.
\<close>

theorem alignment_first_match:
  "fst (checkCalibrationFrameAlignment input det) =
     (case input of
        None \<Rightarrow> NoFace
      | Some m \<Rightarrow>
          if faceWidthToImageRatio m < targetFaceRatio (calibrationFrame det) * 0.5 then TooFar
          else if faceWidthToImageRatio m > targetFaceRatio (calibrationFrame det) * 1.5
            then TooClose
          else if faceCenterX m < - positionTolerance (calibrationFrame det) then TooLeft
          else if faceCenterX m > positionTolerance (calibrationFrame det) then TooRight
          else if faceCenterY m < - positionTolerance (calibrationFrame det) then TooHigh
          else if faceCenterY m > positionTolerance (calibrationFrame det) then TooLow
          else Good)
   \<and> (0 < targetFaceRatio (calibrationFrame det) \<and>
      0 \<le> positionTolerance (calibrationFrame det) \<longrightarrow>
        (faceWidthToImageRatio a = targetFaceRatio (calibrationFrame det) \<and>
         faceCenterX a = 0 \<and> faceCenterY a = 0 \<longrightarrow>
           fst (checkCalibrationFrameAlignment (Some a) det) = Good) \<and>
        (faceWidthToImageRatio b = targetFaceRatio (calibrationFrame det) * 0.4 \<longrightarrow>
           fst (checkCalibrationFrameAlignment (Some b) det) = TooFar) \<and>
        (faceWidthToImageRatio c = targetFaceRatio (calibrationFrame det) \<and>
         faceCenterX c = positionTolerance (calibrationFrame det) + 0.01 \<and>
         faceCenterY c = 0 \<longrightarrow>
           fst (checkCalibrationFrameAlignment (Some c) det) = TooRight))"
  by (simp add: check_returns_decision alignmentDecision_chain split: option.split)

text \<open>The three named cases and the no-face case on a fresh detector.\<close>

theorem alignment_first_match_witness:
  "fst (checkCalibrationFrameAlignment (Some nominal) (newDetector None None)) = Good
   \<and> fst (checkCalibrationFrameAlignment
        (Some (nominal\<lparr>faceWidthToImageRatio := 0.2\<rparr>)) (newDetector None None)) = TooFar
   \<and> fst (checkCalibrationFrameAlignment
        (Some (nominal\<lparr>faceCenterX := 0.21\<rparr>)) (newDetector None None)) = TooRight
   \<and> fst (checkCalibrationFrameAlignment None (newDetector None None)) = NoFace"
  using alignment_first_match [of "Some nominal" "newDetector None None" nominal
      "nominal\<lparr>faceWidthToImageRatio := 0.2\<rparr>" "nominal\<lparr>faceCenterX := 0.21\<rparr>"]
    alignment_first_match [of None "newDetector None None"]
  by (simp add: newDetector_def nominal_def)

subsection \<open>Relative distance\<close>



subsection \<open>Contrast target\<close>

text \<open>
  C9. For every distance \<open>d\<close> the function returns a target ratio in \<open>[3.5, 9.0]\<close>. With
  \<open>n = (d * 2) / 100\<close>: it is \<open>3.5\<close> for \<open>n \<le> - 0.5\<close>, moves linearly from \<open>6.0\<close> towards
  \<open>3.5\<close> by the share \<open>|n| / 0.5\<close> for \<open>- 0.5 < n \<le> 0\<close>, from \<open>6.0\<close> towards \<open>9.0\<close> by
  the share \<open>n / 0.5\<close> for \<open>0 < n < 0.5\<close>, and is \<open>9.0\<close> from \<open>n = 0.5\<close> on; at \<open>d = 0\<close> it
  is the base \<open>6.0\<close>.
\<close>

theorem contrast_target_band:
  "(\<exists>t. calculateContrastAdjustment (Some d) = Inr t
       \<and> 3.5 \<le> t \<and> t \<le> 9.0
       \<and> t = (let n = (d * 2) / 100
              in if n \<le> - 0.5 then 3.5
                 else if n \<le> 0 then 6.0 + (3.5 - 6.0) * (\<bar>n\<bar> / 0.5)
                 else if n < 0.5 then 6.0 + (9.0 - 6.0) * (n / 0.5)
                 else 9.0))
   \<and> calculateContrastAdjustment (Some 0) = Inr 6.0"
proof -
  have z: "calculateContrastAdjustment (Some 0) = Inr 6.0"
    by (simp add: calculateContrastAdjustment_def Let_def)
  consider "d \<le> - 25" | "- 25 < d" "d \<le> 0" | "0 < d" "d < 25" | "25 \<le> d"
    by linarith
  then show ?thesis
  proof cases
    case 1
    then show ?thesis using z
      by (simp add: calculateContrastAdjustment_def Let_def max_def min_def)
  next
    case 2
    then show ?thesis using z
      by (simp add: calculateContrastAdjustment_def Let_def max_def min_def abs_if)
  next
    case 3
    then show ?thesis using z
      by (simp add: calculateContrastAdjustment_def Let_def max_def min_def)
  next
    case 4
    then show ?thesis using z
      by (simp add: calculateContrastAdjustment_def Let_def max_def min_def)
  qed
qed

subsection \<open>Font mapper\<close>






subsection \<open>Contrast ratio\<close>

lemma linearize_nonneg: "0 \<le> c \<Longrightarrow> 0 \<le> linearize c"
  by (simp add: linearize_def)

text \<open>Two hexadecimal digits parse as their value: no white space, sign or prefix.\<close>

lemma hexDigit_plain:
  assumes "isHexDigit c"
  shows "\<not> isWhiteSpace c" "c \<noteq> CHR ''-''" "c \<noteq> CHR ''+''" "c \<noteq> CHR ''x''" "c \<noteq> CHR ''X''"
  using assms by (auto simp: isHexDigit_def hexDigit_def isWhiteSpace_def Let_def)

lemma parseInt16_two_digits:
  assumes "isHexDigit a" "isHexDigit b"
  shows "parseInt16 [a, b] = Some (int (hexValue [a, b]))"
  using assms hexDigit_plain [OF assms(1)] hexDigit_plain [OF assms(2)]
  by (simp add: parseInt16_def Let_def)

text \<open>The relative luminance of a \<open>#rrggbb\<close> colour is a number, and not negative.\<close>

lemma luminance_of_hex:
  assumes "isHexColor s"
  shows "\<exists>l. calculateRelativeLuminance s = Some l \<and> 0 \<le> l"
proof -
  from assms obtain rest where s: "s = CHR ''#'' # rest" and len: "length rest = 6"
    and hex: "list_all isHexDigit rest"
    by (auto simp: isHexColor_def split: list.splits)
  from len obtain r1 r2 g1 g2 b1 b2 where rest: "rest = [r1, r2, g1, g2, b1, b2]"
    by (auto simp: eval_nat_numeral length_Suc_conv)
  have digits: "isHexDigit r1" "isHexDigit r2" "isHexDigit g1" "isHexDigit g2"
    "isHexDigit b1" "isHexDigit b2"
    using hex by (simp_all add: rest)
  have parts: "substr s 1 2 = [r1, r2]" "substr s 3 2 = [g1, g2]" "substr s 5 2 = [b1, b2]"
    by (simp_all add: substr_def s rest eval_nat_numeral)
  let ?r = "real_of_int (int (hexValue [r1, r2])) / 255"
  let ?g = "real_of_int (int (hexValue [g1, g2])) / 255"
  let ?b = "real_of_int (int (hexValue [b1, b2])) / 255"
  have lum: "calculateRelativeLuminance s =
      Some (0.2126 * linearize ?r + 0.7152 * linearize ?g + 0.0722 * linearize ?b)"
    unfolding calculateRelativeLuminance_def parts
    by (simp add: parseInt16_two_digits digits Let_def)
  have "0 \<le> linearize ?r" "0 \<le> linearize ?g" "0 \<le> linearize ?b"
    by (rule linearize_nonneg, simp)+
  then have "0 \<le> 0.2126 * linearize ?r + 0.7152 * linearize ?g + 0.0722 * linearize ?b"
    by simp
  with lum show ?thesis by blast
qed

text \<open>
  C10. For every two \<open>#rrggbb\<close> colour strings the contrast ratio is a number, it is
  the same in both argument orders, and it is at least \<open>1\<close>.
\<close>

theorem contrast_ratio_symmetric_at_least_one:
  assumes "isHexColor c1" and "isHexColor c2"
  shows "\<exists>x. calculateContrastRatio c1 c2 = Some x \<and> calculateContrastRatio c2 c1 = Some x
           \<and> 1 \<le> x"
proof -
  obtain l1 where l1: "calculateRelativeLuminance c1 = Some l1" "0 \<le> l1"
    using luminance_of_hex [OF assms(1)] by blast
  obtain l2 where l2: "calculateRelativeLuminance c2 = Some l2" "0 \<le> l2"
    using luminance_of_hex [OF assms(2)] by blast
  have a: "calculateContrastRatio c1 c2 = Some ((max l1 l2 + 0.05) / (min l1 l2 + 0.05))"
    by (simp add: calculateContrastRatio_def l1 l2 Let_def)
  have b: "calculateContrastRatio c2 c1 = Some ((max l1 l2 + 0.05) / (min l1 l2 + 0.05))"
    by (simp add: calculateContrastRatio_def l1 l2 Let_def max.commute min.commute)
  have pos: "0 < min l1 l2 + 0.05" using l1(2) l2(2) by simp
  have "min l1 l2 + 0.05 \<le> max l1 l2 + 0.05" by simp
  then have "1 \<le> (max l1 l2 + 0.05) / (min l1 l2 + 0.05)"
    using pos by (simp add: le_divide_eq_1_pos del: min_less_iff_disj min_add_distrib_left min_add_distrib_right max_add_distrib_left max_add_distrib_right)
  with a b show ?thesis by blast
qed

text \<open>The two base colours of the reading view.\<close>

theorem contrast_ratio_witness:
  "\<exists>x. calculateContrastRatio ''#FBF0D9'' ''#5F4B32'' = Some x
      \<and> calculateContrastRatio ''#5F4B32'' ''#FBF0D9'' = Some x \<and> 1 \<le> x"
  using contrast_ratio_symmetric_at_least_one [of "''#FBF0D9''" "''#5F4B32''"]
  by (simp add: isHexColor_def isHexDigit_def hexDigit_def)

text \<open>White on black has the largest ratio of the WCAG scale.\<close>

lemma contrast_white_on_black:
  "calculateContrastRatio ''#ffffff'' ''#000000'' = Some 21"
  by (simp add: calculateContrastRatio_def calculateRelativeLuminance_def substr_def
      parseInt16_def isWhiteSpace_def isHexDigit_def hexDigit_def hexValue_def linearize_def
      Let_def)

subsection \<open>Temporal smoother: the window and its mean\<close>

text \<open>Eviction keeps the newest \<open>n\<close> entries.\<close>

lemma evict_drop: "evict n xs = drop (length xs - n) xs"
  by (induction xs) (auto simp: Suc_diff_le)

lemma drop_window:
  "drop (length (drop (length L - N) L @ ms) - N) (drop (length L - N) L @ ms)
     = drop (length (L @ ms) - N) (L @ ms)"
proof -
  have "drop (length L - N) L @ ms = drop (length L - N) (L @ ms)"
    by simp
  moreover have "length (drop (length L - N) (L @ ms)) - N + (length L - N)
      = length (L @ ms) - N"
    by simp
  ultimately show ?thesis
    by (simp only: drop_drop)
qed

text \<open>The buffer after a stream of samples: the newest entries, at most \<open>maxHistorySize\<close>.\<close>

lemma addAll_history:
  "faceHistory (addAllToFaceHistory samples det) =
     (if samples = [] then faceHistory det
      else drop (length (faceHistory det @ samples) - maxHistorySize det)
             (faceHistory det @ samples))
   \<and> maxHistorySize (addAllToFaceHistory samples det) = maxHistorySize det"
proof (induction samples arbitrary: det)
  case Nil
  then show ?case by simp
next
  case (Cons m ms)
  let ?d = "addToFaceHistory m det"
  have h: "faceHistory ?d = drop (length (faceHistory det @ [m]) - maxHistorySize det)
      (faceHistory det @ [m])"
    and n: "maxHistorySize ?d = maxHistorySize det"
    by (simp_all add: addToFaceHistory_def evict_drop)
  show ?case
  proof (cases "ms = []")
    case True
    then show ?thesis using h n by simp
  next
    case False
    have "faceHistory (addAllToFaceHistory (m # ms) det) =
        drop (length (faceHistory ?d @ ms) - maxHistorySize det) (faceHistory ?d @ ms)"
      using Cons [of ?d] False n by simp
    also have "\<dots> = drop (length ((faceHistory det @ [m]) @ ms) - maxHistorySize det)
        ((faceHistory det @ [m]) @ ms)"
      unfolding h by (rule drop_window)
    finally show ?thesis using Cons [of ?d] n by simp
  qed
qed

text \<open>In exact arithmetic the loop computes the sum, so each averaged field is the mean.\<close>

lemma accumulate_exact: "accumulate (\<lambda>x. x) f history = sum_list (map f history)"
proof -
  have "foldl (\<lambda>acc m. acc + f m) a history = a + sum_list (map f history)" for a :: real
    by (induction history arbitrary: a) simp_all
  then show ?thesis by (simp add: accumulate_def)
qed

lemma smoothed_exact:
  "history \<noteq> [] \<Longrightarrow> smoothWith (\<lambda>x. x) history =
     Some \<lparr>faceWidth = sum_list (map faceWidth history) / real (length history),
           faceHeight = sum_list (map faceHeight history) / real (length history),
           faceWidthToImageRatio =
             sum_list (map faceWidthToImageRatio history) / real (length history),
           faceHeightToImageRatio =
             sum_list (map faceHeightToImageRatio history) / real (length history),
           faceCenterX = sum_list (map faceCenterX history) / real (length history),
           faceCenterY = sum_list (map faceCenterY history) / real (length history),
           imageWidth = imageWidth (last history),
           imageHeight = imageHeight (last history),
           timestamp = timestamp (last history)\<rparr>"
  by (simp add: smoothWith_def accumulate_exact Let_def)




subsection \<open>Calibration\<close>

text \<open>The classifier writes only its debounce fields and the callback log.\<close>

lemma check_preserves:
  "calibration (snd (checkCalibrationFrameAlignment input det)) = calibration det"
  "calibrationFrame (snd (checkCalibrationFrameAlignment input det)) = calibrationFrame det"
  "faceHistory (snd (checkCalibrationFrameAlignment input det)) = faceHistory det"
  "maxHistorySize (snd (checkCalibrationFrameAlignment input det)) = maxHistorySize det"
  "distanceScale (snd (checkCalibrationFrameAlignment input det)) = distanceScale det"
  "isRunning (snd (checkCalibrationFrameAlignment input det)) = isRunning det"
  "statusStabilityThreshold (snd (checkCalibrationFrameAlignment input det))
     = statusStabilityThreshold det"
  by (simp_all add: checkCalibrationFrameAlignment_def Let_def split: option.split)


text \<open>
  The six instructions are different, so each names its misalignment; the three ways
  \<open>calibrate\<close> ends.
\<close>

lemma errorMessage_distinct:
  "inj_on errorMessage {TooFar, TooClose, TooLeft, TooRight, TooHigh, TooLow}"
  by (simp add: inj_on_def errorMessage_def)

lemma calibrate_no_face:
  "getSmoothedFaceMetrics det = None \<Longrightarrow>
     calibrate now fontSizeArg (det, store) = (Inl NoFaceDetected, det, store)"
  by (simp add: calibrate_def Let_def)

lemma calibrate_misaligned:
  assumes "getSmoothedFaceMetrics det = Some m"
    and "alignmentDecision (calibrationFrame det) m \<noteq> Good"
  shows "calibrate now fontSizeArg (det, store) =
     (Inl (errorMessage (alignmentDecision (calibrationFrame det) m)),
      snd (checkCalibrationFrameAlignment (Some m) det), store)"
  using assms check_returns_decision [of "Some m" det]
  by (cases "checkCalibrationFrameAlignment (Some m) det") (simp add: calibrate_def Let_def)

lemma calibrate_good:
  assumes "getSmoothedFaceMetrics det = Some m"
    and "alignmentDecision (calibrationFrame det) m = Good"
  shows "calibrate now fontSizeArg (det, store) =
     (let c = \<lparr>isCalibrated = True, referenceFaceWidth = Some (faceWidth m),
               referenceDistance = 0,
               referenceFontSize = Some (case fontSizeArg of None \<Rightarrow> 16 | Some v \<Rightarrow> v),
               timestampC = Some now\<rparr>
      in (Inr c, (snd (checkCalibrationFrameAlignment (Some m) det))\<lparr>calibration := c\<rparr>,
          store(''mediapipe-calibration'' \<mapsto> c)))"
  using assms check_returns_decision [of "Some m" det]
  by (cases "checkCalibrationFrameAlignment (Some m) det") (simp add: calibrate_def Let_def)



subsection \<open>Alignment classifier: debounce\<close>

text \<open>One call of the classifier on present metrics, in terms of the state before.\<close>

lemma check_some:
  fixes det :: Detector and m :: FaceMetrics
  defines "st \<equiv> alignmentDecision (calibrationFrame det) m"
  shows "lastCalibrationStatus (snd (checkCalibrationFrameAlignment (Some m) det)) = Some st"
    and "statusStabilityCounter (snd (checkCalibrationFrameAlignment (Some m) det)) =
          (if lastCalibrationStatus det = Some st then statusStabilityCounter det + 1 else 0)"
    and "frameStatusEvents (snd (checkCalibrationFrameAlignment (Some m) det))
            \<noteq> frameStatusEvents det
          \<longleftrightarrow> lastCalibrationStatus det = Some st
              \<and> statusStabilityThreshold det \<le> statusStabilityCounter det + 1"
  by (simp_all add: checkCalibrationFrameAlignment_def Let_def st_def)

lemma check_none: "checkCalibrationFrameAlignment None det = (NoFace, det)"
  by (simp add: checkCalibrationFrameAlignment_def)

lemma classifyFrames_snoc:
  "classifyFrames (fs @ [f]) det = snd (checkCalibrationFrameAlignment f (classifyFrames fs det))"
  by (induction fs arbitrary: det) simp_all

lemma classifyFrames_preserves:
  "calibrationFrame (classifyFrames fs det) = calibrationFrame det"
  "statusStabilityThreshold (classifyFrames fs det) = statusStabilityThreshold det"
  "calibration (classifyFrames fs det) = calibration det"
  by (induction fs arbitrary: det) (simp_all add: check_preserves)

text \<open>
  After a non-empty run of frames with metrics, started with no remembered status,
  the remembered status is that of the last frame and the counter is one less than
  the length of the run of that status that ends the sequence.
\<close>

lemma debounce_invariant:
  assumes "lastCalibrationStatus det = None" and "ms \<noteq> []"
  defines "dec \<equiv> alignmentDecision (calibrationFrame det)"
  shows "lastCalibrationStatus (classifyFrames (map Some ms) det) = Some (dec (last ms))
       \<and> statusStabilityCounter (classifyFrames (map Some ms) det) + 1
           = length (takeWhile (\<lambda>x. dec x = dec (last ms)) (rev ms))"
  using assms(2)
proof (induction ms rule: rev_induct)
  case Nil
  then show ?case by simp
next
  case (snoc x xs)
  let ?d = "classifyFrames (map Some xs) det"
  have frame: "calibrationFrame ?d = calibrationFrame det"
    by (rule classifyFrames_preserves)
  have step: "classifyFrames (map Some xs @ [Some x]) det
      = snd (checkCalibrationFrameAlignment (Some x) ?d)"
    by (rule classifyFrames_snoc)
  show ?case
  proof (cases "xs = []")
    case True
    then show ?thesis
      using assms(1) by (simp add: step check_some dec_def)
  next
    case False
    from snoc.IH [OF False]
    have last: "lastCalibrationStatus ?d = Some (dec (last xs))"
      and count: "statusStabilityCounter ?d + 1
          = length (takeWhile (\<lambda>y. dec y = dec (last xs)) (rev xs))"
      by simp_all
    from False obtain ys where rev: "rev xs = last xs # ys"
      by (cases xs rule: rev_cases) simp_all
    show ?thesis
    proof (cases "dec x = dec (last xs)")
      case True
      then show ?thesis
        using last count by (simp add: step check_some frame dec_def [symmetric])
    next
      case False
      then show ?thesis
        using last by (simp add: step check_some frame dec_def [symmetric] rev)
    qed
  qed
qed

text \<open>A run of \<open>n\<close> elements that satisfy \<open>P\<close> at the end of a list, read through \<open>takeWhile\<close>.\<close>

lemma run_at_end:
  "n \<le> length (takeWhile P (rev xs))
     \<longleftrightarrow> n \<le> length xs \<and> (\<forall>x \<in> set (drop (length xs - n) xs). P x)"
proof
  assume n: "n \<le> length (takeWhile P (rev xs))"
  have le: "length (takeWhile P (rev xs)) \<le> length xs"
    using length_takeWhile_le [of P "rev xs"] by simp
  have "take n (takeWhile P (rev xs) @ dropWhile P (rev xs)) = take n (takeWhile P (rev xs))"
    using n by (simp del: takeWhile_dropWhile_id)
  then have "take n (rev xs) = take n (takeWhile P (rev xs))"
    by (simp only: takeWhile_dropWhile_id)
  then have "set (take n (rev xs)) \<subseteq> set (takeWhile P (rev xs))"
    by (simp add: set_take_subset)
  then have "\<forall>x \<in> set (take n (rev xs)). P x"
    by (auto dest: set_takeWhileD)
  moreover have "set (drop (length xs - n) xs) = set (take n (rev xs))"
    by (simp add: take_rev)
  ultimately show "n \<le> length xs \<and> (\<forall>x \<in> set (drop (length xs - n) xs). P x)"
    using n le by simp
next
  assume a: "n \<le> length xs \<and> (\<forall>x \<in> set (drop (length xs - n) xs). P x)"
  have "set (drop (length xs - n) xs) = set (take n (rev xs))"
    by (simp add: take_rev)
  with a have all: "\<forall>x \<in> set (take n (rev xs)). P x" by simp
  have "takeWhile P (take n (rev xs) @ drop n (rev xs))
      = take n (rev xs) @ takeWhile P (drop n (rev xs))"
    using all by (intro takeWhile_append2) simp
  then have "takeWhile P (rev xs) = take n (rev xs) @ takeWhile P (drop n (rev xs))"
    by (simp only: append_take_drop_id)
  then have "length (takeWhile P (rev xs)) = n + length (takeWhile P (drop n (rev xs)))"
    using a by simp
  then show "n \<le> length (takeWhile P (rev xs))"
    by simp
qed

text \<open>
  C4 (amended). Take any sequence \<open>ms\<close> of frames that carry metrics, classified from a
  state with no remembered status, and one more such frame \<open>m\<close>. The call for \<open>m\<close>
  returns the raw status of \<open>m\<close>. If that status differs from the one of the frame
  before, the counter is reset to zero and nothing is notified. The callback is
  invoked only if at least \<open>stabilityThreshold\<close> frames came before and the last
  \<open>stabilityThreshold\<close> of them all had the status of \<open>m\<close> (so the status has been seen on
  \<open>stabilityThreshold + 1\<close> consecutive frames); for a positive threshold it is invoked
  exactly then. A call without metrics returns no-face and leaves the state, counter
  included, as it was.
\<close>

theorem debounce_on_frames_with_metrics:
  assumes "lastCalibrationStatus det = None"
  shows "(let dec = alignmentDecision (calibrationFrame det);
              T = statusStabilityThreshold det;
              before = classifyFrames (map Some ms) det;
              out = checkCalibrationFrameAlignment (Some m) before;
              notified = (frameStatusEvents (snd out) \<noteq> frameStatusEvents before)
          in fst out = dec m
           \<and> (ms \<noteq> [] \<and> dec (last ms) \<noteq> dec m \<longrightarrow>
                statusStabilityCounter (snd out) = 0 \<and> \<not> notified)
           \<and> (notified \<longrightarrow>
                T \<le> length ms \<and> (\<forall>x \<in> set (drop (length ms - T) ms). dec x = dec m))
           \<and> (0 < T \<longrightarrow>
                (notified \<longleftrightarrow>
                  T \<le> length ms \<and> (\<forall>x \<in> set (drop (length ms - T) ms). dec x = dec m)))
           \<and> checkCalibrationFrameAlignment None before = (NoFace, before))"
proof -
  define dec where "dec = alignmentDecision (calibrationFrame det)"
  define T where "T = statusStabilityThreshold det"
  define before where "before = classifyFrames (map Some ms) det"
  define out where "out = checkCalibrationFrameAlignment (Some m) before"
  define notified where "notified \<longleftrightarrow> frameStatusEvents (snd out) \<noteq> frameStatusEvents before"
  have frame: "calibrationFrame before = calibrationFrame det"
    and thr: "statusStabilityThreshold before = T"
    by (simp_all add: before_def T_def classifyFrames_preserves)
  have raw: "fst out = dec m"
    by (simp add: out_def check_returns_decision frame dec_def)
  have fired: "notified \<longleftrightarrow>
      lastCalibrationStatus before = Some (dec m) \<and> T \<le> statusStabilityCounter before + 1"
    unfolding notified_def out_def using check_some(3) [of m before]
    by (simp add: frame thr dec_def)
  have counter: "statusStabilityCounter (snd out) =
      (if lastCalibrationStatus before = Some (dec m)
       then statusStabilityCounter before + 1 else 0)"
    unfolding out_def using check_some(2) [of m before] by (simp add: frame dec_def)
  have window: "(notified \<longrightarrow>
        T \<le> length ms \<and> (\<forall>x \<in> set (drop (length ms - T) ms). dec x = dec m))
      \<and> (0 < T \<longrightarrow> (notified \<longleftrightarrow>
        T \<le> length ms \<and> (\<forall>x \<in> set (drop (length ms - T) ms). dec x = dec m)))
      \<and> (ms \<noteq> [] \<and> dec (last ms) \<noteq> dec m \<longrightarrow>
        statusStabilityCounter (snd out) = 0 \<and> \<not> notified)"
  proof (cases "ms = []")
    case True
    then have "lastCalibrationStatus before = None"
      using assms by (simp add: before_def)
    then show ?thesis using True by (simp add: fired)
  next
    case False
    from debounce_invariant [OF assms False]
    have last: "lastCalibrationStatus before = Some (dec (last ms))"
      and count: "statusStabilityCounter before + 1
          = length (takeWhile (\<lambda>x. dec x = dec (last ms)) (rev ms))"
      by (simp_all add: before_def dec_def)
    show ?thesis
    proof (cases "dec (last ms) = dec m")
      case True
      then have "notified \<longleftrightarrow> T \<le> length (takeWhile (\<lambda>x. dec x = dec m) (rev ms))"
        using last count by (simp add: fired)
      then show ?thesis
        using True by (simp add: run_at_end)
    next
      case diff: False
      then have no: "\<not> notified"
        using last by (simp add: fired)
      have zero: "statusStabilityCounter (snd out) = 0"
        using diff last by (simp add: counter)
      have "\<not> (\<forall>x \<in> set (drop (length ms - T) ms). dec x = dec m)" if "0 < T"
      proof -
        have "length ms - T < length ms" using that False by simp
        then have "drop (length ms - T) ms \<noteq> []"
          and "last (drop (length ms - T) ms) = last ms"
          by simp_all
        then have "last ms \<in> set (drop (length ms - T) ms)"
          using last_in_set by metis
        with diff show ?thesis by blast
      qed
      with no zero show ?thesis by blast
    qed
  qed
  have none: "checkCalibrationFrameAlignment None before = (NoFace, before)"
    by (rule check_none)
  show ?thesis
    unfolding Let_def
    using raw window none
    unfolding notified_def out_def before_def T_def dec_def
    by blast
qed

text \<open>
  On a fresh detector (threshold 3) the fourth well-aligned frame in a row is
  notified; the third is not.
\<close>

theorem debounce_witness:
  "frameStatusEvents (snd (checkCalibrationFrameAlignment (Some nominal)
       (classifyFrames (map Some [nominal, nominal, nominal]) (newDetector None None))))
     \<noteq> frameStatusEvents
         (classifyFrames (map Some [nominal, nominal, nominal]) (newDetector None None))
   \<and> frameStatusEvents (snd (checkCalibrationFrameAlignment (Some nominal)
       (classifyFrames (map Some [nominal, nominal]) (newDetector None None))))
     = frameStatusEvents
         (classifyFrames (map Some [nominal, nominal]) (newDetector None None))
   \<and> fst (checkCalibrationFrameAlignment (Some nominal)
       (classifyFrames (map Some [nominal, nominal, nominal]) (newDetector None None))) = Good"
proof -
  have fresh: "lastCalibrationStatus (newDetector None None) = None"
    and thr: "statusStabilityThreshold (newDetector None None) = 3"
    and good: "alignmentDecision (calibrationFrame (newDetector None None)) nominal = Good"
    by (simp_all add: newDetector_def alignmentDecision_chain nominal_def)
  show ?thesis
    using debounce_on_frames_with_metrics [OF fresh, of "[nominal, nominal, nominal]" nominal]
      debounce_on_frames_with_metrics [OF fresh, of "[nominal, nominal]" nominal]
    unfolding Let_def
    by (simp add: thr good)
qed

text \<open>
  C4 as stated fails on a sequence with a no-face frame: after three well-aligned
  frames the counter is \<open>2\<close>; the no-face call returns \<open>NoFace\<close>, a differing status, and
  the counter is still \<open>2\<close>, not \<open>0\<close>; the next well-aligned frame is notified although
  the frame before it was classified differently.
\<close>

theorem debounce_no_face_counterexample:
  "statusStabilityCounter
     (classifyFrames [Some nominal, Some nominal, Some nominal] (newDetector None None)) = 2
   \<and> fst (checkCalibrationFrameAlignment None
       (classifyFrames [Some nominal, Some nominal, Some nominal] (newDetector None None)))
     = NoFace
   \<and> statusStabilityCounter
     (classifyFrames [Some nominal, Some nominal, Some nominal, None] (newDetector None None))
     = 2
   \<and> frameStatusEvents
     (classifyFrames [Some nominal, Some nominal, Some nominal, None] (newDetector None None))
     = []
   \<and> frameStatusEvents
     (classifyFrames [Some nominal, Some nominal, Some nominal, None, Some nominal]
        (newDetector None None))
     = [\<lparr>status = Good, faceRatio = 0.5, idealRatio = 0.5, positionX = 0, positionY = 0\<rparr>]"
  by code_simp

text \<open>
  The no-face notification is not debounced, and it leaves the classifier's memory
  alone: in the frame loop, four centred frames, a gap without a face of more than
  500 ms and one more centred frame are notified as good, no-face, good.
\<close>

lemma no_face_notified_at_once:
  assumes "faceHistory det = [] \<or> now - timestamp (last (faceHistory det)) > 500"
    and "0 < now - 500"
  shows "frameStatusEvents (handleNoFaceDetected now det)
           = frameStatusEvents det @
               [\<lparr>status = NoFace, faceRatio = 0,
                 idealRatio = targetFaceRatio (calibrationFrame det),
                 positionX = 0, positionY = 0\<rparr>]"
    and "statusStabilityCounter (handleNoFaceDetected now det) = statusStabilityCounter det"
    and "lastCalibrationStatus (handleNoFaceDetected now det) = lastCalibrationStatus det"
  using assms by (auto simp: handleNoFaceDetected_def Let_def)

lemma frame_loop_gap:
  "map status (frameStatusEvents (processFrames
      [(1000, Some centredFrame), (1033, Some centredFrame), (1066, Some centredFrame),
       (1100, Some centredFrame), (1700, None), (1733, Some centredFrame)]
      (startDetectionLoop (newDetector None None))))
     = [Good, NoFace, Good]"
  by code_simp

subsection \<open>Calibrated states\<close>

lemma set_evict: "set (evict n xs) \<subseteq> set xs"
  by (simp add: evict_drop set_drop_subset)

lemma positive_term_of_positive_sum:
  fixes f :: "'a \<Rightarrow> real"
  assumes "0 < sum_list (map f xs)"
  shows "\<exists>x \<in> set xs. 0 < f x"
proof (rule ccontr)
  assume "\<not> (\<exists>x \<in> set xs. 0 < f x)"
  then have "\<forall>x \<in> set xs. f x \<le> 0" by (simp add: not_less)
  then have "sum_list (map f xs) \<le> 0" by (induction xs) auto
  with assms show False by simp
qed

lemma term_le_sum:
  fixes f :: "'a \<Rightarrow> real"
  assumes "\<forall>x \<in> set xs. 0 \<le> f x" and "m \<in> set xs"
  shows "f m \<le> sum_list (map f xs)"
  using assms
proof (induction xs)
  case Nil
  then show ?case by simp
next
  case (Cons a xs)
  have "0 \<le> sum_list (map f xs)" using Cons.prems(1) by (intro sum_list_nonneg) auto
  then show ?case using Cons by auto
qed

lemma calculateFaceMetrics_extracted:
  "calculateFaceMetrics now landmarks w h = Inr m \<Longrightarrow> 0 < w \<Longrightarrow> extracted m"
  by (auto simp: calculateFaceMetrics_def extracted_def Let_def split: option.splits)

text \<open>
  When the classifier finds the smoothed metrics of such samples good, the smoothed
  face width is positive: the mean ratio is at least half the (positive) target.
\<close>

lemma good_width_positive:
  assumes ex: "\<forall>m \<in> set history. extracted m"
    and sm: "smoothWith (\<lambda>x. x) history = Some s"
    and good: "alignmentDecision frame s = Good"
    and target: "0 < targetFaceRatio frame"
  shows "0 < faceWidth s"
proof -
  have ne: "history \<noteq> []" using sm by (auto simp: smoothWith_def)
  then have n: "0 < real (length history)" by simp
  have s: "faceWidthToImageRatio s
        = sum_list (map faceWidthToImageRatio history) / real (length history)"
      "faceWidth s = sum_list (map faceWidth history) / real (length history)"
    using sm by (auto simp: smoothed_exact [OF ne])
  have "\<not> faceWidthToImageRatio s < targetFaceRatio frame * 0.5"
    using good by (auto simp: alignmentDecision_chain split: if_splits)
  then have "0 < faceWidthToImageRatio s" using target by simp
  then have "0 < sum_list (map faceWidthToImageRatio history)"
    using n by (simp add: s zero_less_divide_iff)
  then obtain m where m: "m \<in> set history" "0 < faceWidthToImageRatio m"
    using positive_term_of_positive_sum by blast
  then have "0 < faceWidth m / imageWidth m" "0 < imageWidth m"
    using ex by (auto simp: extracted_def)
  then have "0 < faceWidth m" by (simp add: zero_less_divide_iff)
  moreover have "faceWidth m \<le> sum_list (map faceWidth history)"
    using ex m(1) by (intro term_le_sum) (auto simp: extracted_def)
  ultimately have "0 < sum_list (map faceWidth history)" by simp
  then show ?thesis using n by (simp add: s)
qed

text \<open>Each operation of the detector keeps the invariant.\<close>

lemma sound_constructed: "calibrationSound (newDetector smoothingWindow scale)"
  by (simp add: calibrationSound_def newDetector_def uncalibrated_def)

lemma sound_simple:
  assumes "calibrationSound det"
  shows "calibrationSound (startDetectionLoop det)"
    and "calibrationSound (cleanup det)"
    and "calibrationSound (dialogThreshold det)"
    and "calibrationSound (resetCalibration det)"
    and "calibrationSound (handleNoFaceDetected now det)"
    and "calibrationSound (det\<lparr>errorsReported := es\<rparr>)"
  using assms
  by (simp_all add: calibrationSound_def startDetectionLoop_def cleanup_def dialogThreshold_def
      resetCalibration_def handleNoFaceDetected_def uncalibrated_def Let_def)

lemma sound_add:
  assumes "calibrationSound det" and "extracted m"
  shows "calibrationSound (addToFaceHistory m det)"
proof -
  have "set (evict (maxHistorySize det) (faceHistory det @ [m]))
      \<subseteq> set (faceHistory det @ [m])"
    by (rule set_evict)
  then have "list_all extracted (evict (maxHistorySize det) (faceHistory det @ [m]))"
    using assms by (auto simp: calibrationSound_def list_all_iff)
  then show ?thesis
    using assms(1) by (simp add: calibrationSound_def addToFaceHistory_def)
qed

lemma sound_check:
  assumes "calibrationSound det"
  shows "calibrationSound (snd (checkCalibrationFrameAlignment input det))"
  using assms by (simp add: calibrationSound_def check_preserves)

lemma sound_frame:
  assumes "calibrationSound det" and "0 < imageW r"
  shows "calibrationSound (processFaceMeshResults now (Some r) det)"
proof (cases "isRunning det")
  case False
  then show ?thesis using assms(1) by (simp add: processFaceMeshResults_def)
next
  case True
  show ?thesis
  proof (cases "multiFaceLandmarks r")
    case None
    then show ?thesis
      using True sound_simple(5) [OF assms(1)] by (simp add: processFaceMeshResults_def)
  next
    case (Some faces)
    show ?thesis
    proof (cases faces)
      case Nil
      then show ?thesis
        using True Some sound_simple(5) [OF assms(1)] by (simp add: processFaceMeshResults_def)
    next
      case (Cons landmarks others)
      show ?thesis
      proof (cases "calculateFaceMetrics now landmarks (imageW r) (imageH r)")
        case (Inl e)
        then show ?thesis
          using True Some Cons sound_simple(6) [OF assms(1)]
          by (simp add: processFaceMeshResults_def)
      next
        case (Inr metrics)
        then have "extracted metrics"
          using assms(2) by (rule calculateFaceMetrics_extracted)
        then have "calibrationSound (snd (checkCalibrationFrameAlignment
            (getSmoothedFaceMetrics (addToFaceHistory metrics det))
            (addToFaceHistory metrics det)))"
          using assms(1) by (intro sound_check sound_add)
        moreover obtain st det2 where pair: "checkCalibrationFrameAlignment
            (getSmoothedFaceMetrics (addToFaceHistory metrics det))
            (addToFaceHistory metrics det) = (st, det2)"
          by (cases "checkCalibrationFrameAlignment
            (getSmoothedFaceMetrics (addToFaceHistory metrics det))
            (addToFaceHistory metrics det)")
        ultimately have "calibrationSound det2" by simp
        then show ?thesis
          using True Some Cons Inr pair
          by (simp add: processFaceMeshResults_def Let_def calibrationSound_def)
      qed
    qed
  qed
qed

lemma sound_no_results:
  assumes "calibrationSound det"
  shows "calibrationSound (processFaceMeshResults now None det)"
  using assms sound_simple(5) [OF assms] by (simp add: processFaceMeshResults_def)

lemma sound_calibrate:
  assumes "calibrationSound det"
  shows "calibrationSound (fst (snd (calibrate now fontSizeArg (det, store))))"
proof (cases "getSmoothedFaceMetrics det")
  case None
  then show ?thesis using assms by (simp add: calibrate_no_face)
next
  case (Some m)
  have after: "calibrationSound (snd (checkCalibrationFrameAlignment (Some m) det))"
    using assms by (rule sound_check)
  show ?thesis
  proof (cases "alignmentDecision (calibrationFrame det) m = Good")
    case False
    then show ?thesis using after by (simp add: calibrate_misaligned [OF Some])
  next
    case True
    have "\<forall>x \<in> set (faceHistory det). extracted x"
      and "0 < targetFaceRatio (calibrationFrame det)"
      using assms by (simp_all add: calibrationSound_def list_all_iff)
    moreover have "smoothWith (\<lambda>x. x) (faceHistory det) = Some m"
      using Some by (simp add: getSmoothedFaceMetrics_def)
    ultimately have "0 < faceWidth m"
      using True by (intro good_width_positive)
    then show ?thesis
      using after by (simp add: calibrate_good [OF Some True] calibrationSound_def Let_def)
  qed
qed

lemma load_refused_unchanged:
  "fst (loadCalibration parseJSON calibrationData det) = False \<Longrightarrow>
     snd (loadCalibration parseJSON calibrationData det) = det"
  by (auto simp: loadCalibration_def split: option.splits JsData.splits if_splits)

lemma sound_load:
  assumes "calibrationSound det"
    and "(case calibrationData of Text s \<Rightarrow> parseJSON s | Parsed v \<Rightarrow> Some v)
          = Some (Object parsedData)"
    and "dataReferenceFaceWidth parsedData = Number w" and "0 < w"
  shows "calibrationSound (snd (loadCalibration parseJSON calibrationData det))"
  using assms by (simp add: loadCalibration_def calibrationSound_def)

lemma reachable_sound: "reachable det \<Longrightarrow> calibrationSound det"
proof (induction rule: reachable.induct)
  case (constructed smoothingWindow scale)
  show ?case by (rule sound_constructed)
next
  case (load_refused det parseJSON calibrationData)
  then show ?case by (simp add: load_refused_unchanged)
qed (simp_all add: sound_simple sound_no_results sound_frame sound_calibrate sound_load)

text \<open>
  C5 (amended). In every state reached from the constructor by frames of positive
  image size, \<open>calibrate\<close>, the dialog's reset, and \<open>loadCalibration\<close> of records whose
  reference width is a positive number, a calibrated detector has a reference width
  strictly greater than \<open>0\<close>; and while the detector is not calibrated,
  \<open>calculateRelativeDistance\<close> gives the neutral sample with \<open>isCalibrated = false\<close>.
\<close>

theorem calibrated_reference_positive:
  assumes "reachable det"
  shows "(isCalibrated (calibration det) \<longrightarrow>
            (\<exists>r. referenceFaceWidth (calibration det) = Some r \<and> 0 < r))
       \<and> (\<not> isCalibrated (calibration det) \<longrightarrow>
            distance (calculateRelativeDistance input det) = 0 \<and>
            distanceRatio (calculateRelativeDistance input det) = 1 \<and>
            \<not> isCalibratedD (calculateRelativeDistance input det))"
proof -
  have "calibrationSound det" using assms by (rule reachable_sound)
  then have "isCalibrated (calibration det) \<longrightarrow>
      (\<exists>r. referenceFaceWidth (calibration det) = Some r \<and> 0 < r)"
    by (auto simp: calibrationSound_def split: option.splits if_splits)
  moreover have "\<not> isCalibrated (calibration det) \<longrightarrow>
            distance (calculateRelativeDistance input det) = 0 \<and>
            distanceRatio (calculateRelativeDistance input det) = 1 \<and>
            \<not> isCalibratedD (calculateRelativeDistance input det)"
    by (simp add: calculateRelativeDistance_def split: option.split)
  ultimately show ?thesis by blast
qed

text \<open>
  A detector that is started, sees one centred face in a 640 by 480 frame and is
  calibrated by the user has reference width 320; a fresh detector refuses distances.
\<close>

lemma centredFace_metrics:
  "calculateFaceMetrics 1000 centredFace 640 480 = Inr nominal"
  by (simp add: calculateFaceMetrics_def element_def centredFace_def nominal_def Let_def)

lemma centredFrame_seen:
  "processFaceMeshResults 1000 (Some centredFrame) (startDetectionLoop (newDetector None None))
     = (startDetectionLoop (newDetector None None))
         \<lparr>faceHistory := [nominal],
          lastCalibrationStatus := Some Good,
          distanceUpdates :=
            [\<lparr>distanceU = Some 0, offsetU = Some 0, distanceRatioU = Some 1,
              faceWidthU = 320, isCalibratedU = False, alignmentStatus = Good,
              faceDetected = True\<rparr>]\<rparr>"
proof -
  have smooth: "smoothWith (\<lambda>x. x) [nominal] = Some nominal"
    by (simp add: smoothWith_def accumulate_def nominal_def)
  have good: "alignmentDecision \<lparr>targetFaceRatio = 1 / 2, positionTolerance = 1 / 5\<rparr> nominal
      = Good"
    by (simp add: alignmentDecision_chain nominal_def)
  have width: "faceWidth nominal = 320" by (simp add: nominal_def)
  show ?thesis
    by (simp add: processFaceMeshResults_def centredFrame_def centredFace_metrics
        startDetectionLoop_def newDetector_def orDefault_def addToFaceHistory_def
        getSmoothedFaceMetrics_def smooth checkCalibrationFrameAlignment_def good
        calculateRelativeDistance_def uncalibrated_def width Let_def)
qed

theorem calibrated_reference_positive_witness:
  "reachable (fst (snd (calibrate 2000 (Some 18)
       (processFaceMeshResults 1000 (Some centredFrame)
          (startDetectionLoop (newDetector None None)), Map.empty))))
   \<and> calibration (fst (snd (calibrate 2000 (Some 18)
       (processFaceMeshResults 1000 (Some centredFrame)
          (startDetectionLoop (newDetector None None)), Map.empty))))
     = \<lparr>isCalibrated = True, referenceFaceWidth = Some 320, referenceDistance = 0,
        referenceFontSize = Some 18, timestampC = Some 2000\<rparr>
   \<and> reachable (newDetector None None)
   \<and> \<not> isCalibratedD (calculateRelativeDistance (Some nominal) (newDetector None None))"
proof -
  let ?seen = "processFaceMeshResults 1000 (Some centredFrame)
          (startDetectionLoop (newDetector None None))"
  let ?final = "fst (snd (calibrate 2000 (Some 18) (?seen, Map.empty)))"
  have fresh: "reachable (newDetector None None)"
    by (rule reachable.constructed)
  then have "reachable (startDetectionLoop (newDetector None None))"
    by (rule reachable.started)
  then have "reachable ?seen"
    by (rule reachable.frame) (simp_all add: centredFrame_def)
  then have fin: "reachable ?final"
    by (rule reachable.calibrated)
  have smooth: "getSmoothedFaceMetrics ?seen = Some nominal"
    by (simp add: centredFrame_seen getSmoothedFaceMetrics_def smoothWith_def accumulate_def
        nominal_def)
  have good: "alignmentDecision (calibrationFrame ?seen) nominal = Good"
    unfolding centredFrame_seen
    by (simp add: startDetectionLoop_def newDetector_def alignmentDecision_chain nominal_def)
  have cal: "calibration ?final
      = \<lparr>isCalibrated = True, referenceFaceWidth = Some 320, referenceDistance = 0,
         referenceFontSize = Some 18, timestampC = Some 2000\<rparr>"
    by (simp add: calibrate_good [OF smooth good] Let_def nominal_def)
  have idle: "\<not> isCalibrated (calibration (newDetector None None))"
    by (simp add: newDetector_def uncalibrated_def)
  show ?thesis
    using calibrated_reference_positive [OF fin]
      calibrated_reference_positive [OF fresh, of "Some nominal"]
      fin fresh cal idle
    by simp
qed

text \<open>
  C5 as stated fails: \<open>loadCalibration\<close> accepts a stored record whose reference
  width is \<open>0\<close>, or negative, and the detector is then calibrated with that width.
\<close>

theorem load_unchecked_width_counterexample:
  "loadCalibration (\<lambda>s. None) (Parsed (Object (storedWithWidth 0))) (newDetector None None)
     = (True, calibratedAt 0
          \<lparr>calibration := (calibration (calibratedAt 0))\<lparr>timestampC := Some 1700000000000\<rparr>\<rparr>)
   \<and> isCalibrated (calibration (snd (loadCalibration (\<lambda>s. None)
        (Parsed (Object (storedWithWidth 0))) (newDetector None None))))
   \<and> referenceFaceWidth (calibration (snd (loadCalibration (\<lambda>s. None)
        (Parsed (Object (storedWithWidth 0))) (newDetector None None)))) = Some 0
   \<and> isCalibrated (calibration (snd (loadCalibration (\<lambda>s. None)
        (Parsed (Object (storedWithWidth (- 5)))) (newDetector None None))))
   \<and> referenceFaceWidth (calibration (snd (loadCalibration (\<lambda>s. None)
        (Parsed (Object (storedWithWidth (- 5)))) (newDetector None None)))) = Some (- 5)"
  by (simp add: loadCalibration_def storedWithWidth_def truthy_def orElse_def calibratedAt_def
      newDetector_def)

subsection \<open>Temporal smoother: a buffer of identical samples\<close>

text \<open>The sum the loop reaches on \<open>n\<close> copies, when no partial sum is rounded.\<close>

lemma accumulate_replicate:
  assumes "\<forall>k \<le> n. rnd (real k * v) = real k * v" and "field m = v"
  shows "accumulate rnd field (replicate n m) = real n * v"
  using assms(1)
proof (induction n)
  case 0
  then show ?case by (simp add: accumulate_def)
next
  case (Suc n)
  then have "accumulate rnd field (replicate n m) = real n * v" by simp
  moreover have "replicate (Suc n) m = replicate n m @ [m]"
    by (simp add: replicate_append_same)
  moreover have "rnd (real (Suc n) * v) = real (Suc n) * v"
    using Suc.prems by blast
  ultimately show ?case
    by (simp add: accumulate_def assms(2) algebra_simps)
qed

lemma mean_replicate:
  assumes "0 < n" and "\<forall>k \<le> n. rnd (real k * v) = real k * v" and "field m = v"
  shows "rnd (accumulate rnd field (replicate n m) / real n) = v"
proof -
  have "rnd (real 1 * v) = real 1 * v" using assms(1,2) by (metis Suc_leI One_nat_def)
  then have "rnd v = v" by simp
  moreover have "accumulate rnd field (replicate n m) = real n * v"
    using assms(2,3) by (rule accumulate_replicate)
  ultimately show ?thesis
    using assms(1) by simp
qed

text \<open>
  C8 (amended). For every FaceMetrics \<open>m\<close> and every buffer of \<open>n \<ge> 1\<close> copies of \<open>m\<close>, the
  smoother's output equals \<open>m\<close> field for field provided that, for each of the six
  averaged fields \<open>v\<close> of \<open>m\<close>, the multiples \<open>k * v\<close> up to \<open>k = n\<close> are not changed by
  the rounding of the arithmetic. In exact arithmetic this always holds.
\<close>

theorem smoothed_uniform_buffer:
  assumes "0 < n"
    and "\<forall>k \<le> n. \<forall>v \<in> set [faceWidth m, faceHeight m, faceWidthToImageRatio m,
            faceHeightToImageRatio m, faceCenterX m, faceCenterY m].
          rnd (real k * v) = real k * v"
  shows "smoothWith rnd (replicate n m) = Some m"
proof -
  have ex: "\<forall>k \<le> n. rnd (real k * v) = real k * v"
    if "v \<in> set [faceWidth m, faceHeight m, faceWidthToImageRatio m,
            faceHeightToImageRatio m, faceCenterX m, faceCenterY m]" for v
    using assms(2) that by blast
  have a: "rnd (accumulate rnd faceWidth (replicate n m) / real n) = faceWidth m"
    by (rule mean_replicate [OF assms(1) ex]) simp_all
  have b: "rnd (accumulate rnd faceHeight (replicate n m) / real n) = faceHeight m"
    by (rule mean_replicate [OF assms(1) ex]) simp_all
  have c: "rnd (accumulate rnd faceWidthToImageRatio (replicate n m) / real n)
      = faceWidthToImageRatio m"
    by (rule mean_replicate [OF assms(1) ex]) simp_all
  have d: "rnd (accumulate rnd faceHeightToImageRatio (replicate n m) / real n)
      = faceHeightToImageRatio m"
    by (rule mean_replicate [OF assms(1) ex]) simp_all
  have e: "rnd (accumulate rnd faceCenterX (replicate n m) / real n) = faceCenterX m"
    by (rule mean_replicate [OF assms(1) ex]) simp_all
  have f: "rnd (accumulate rnd faceCenterY (replicate n m) / real n) = faceCenterY m"
    by (rule mean_replicate [OF assms(1) ex]) simp_all
  show ?thesis
    using a b c d e f assms(1) by (cases m) (simp add: smoothWith_def Let_def)
qed

text \<open>Five copies of \<open>nominal\<close> in exact arithmetic, as \<open>getSmoothedFaceMetrics\<close> computes.\<close>

theorem smoothed_uniform_buffer_witness:
  "smoothWith (\<lambda>x. x) (replicate 5 nominal) = Some nominal
   \<and> getSmoothedFaceMetrics
       (addAllToFaceHistory (replicate 7 nominal) (newDetector None None)) = Some nominal"
proof -
  have "smoothWith (\<lambda>x. x) (replicate 5 nominal) = Some nominal"
    using smoothed_uniform_buffer [of 5 nominal "\<lambda>x. x"] by simp
  moreover have "faceHistory (addAllToFaceHistory (replicate 7 nominal) (newDetector None None))
      = replicate 5 nominal"
    using addAll_history [of "replicate 7 nominal" "newDetector None None"]
    by (simp add: newDetector_def orDefault_def)
  ultimately show ?thesis
    by (simp add: getSmoothedFaceMetrics_def)
qed

subsection \<open>Rounding to a double: evaluation\<close>

lemma floor_log2:
  assumes "2 powi k \<le> x" and "x < 2 powi (k + 1)"
  shows "\<lfloor>log 2 x\<rfloor> = k"
proof -
  have "0 < (2::real) powi k" by simp
  then have pos: "0 < x" using assms(1) by linarith
  have lo: "(2::real) powi k = 2 powr of_int k"
    and hi: "(2::real) powi (k + 1) = 2 powr of_int (k + 1)"
    using powr_real_of_int' [of "2::real" k] powr_real_of_int' [of "2::real" "k + 1"]
    by (simp_all del: of_int_add)
  have "of_int k \<le> log 2 x"
    using assms(1) pos unfolding lo by (simp add: le_log_iff)
  moreover have "log 2 x < of_int (k + 1)"
    using assms(2) pos unfolding hi by (simp add: log_less_iff del: of_int_add)
  ultimately show ?thesis
    by (simp add: floor_eq_iff)
qed

lemma binary64_at:
  assumes "2 powi k \<le> \<bar>x\<bar>" and "\<bar>x\<bar> < 2 powi (k + 1)"
  shows "binary64 x = of_int (roundHalfEven (x / 2 powi (k - 52))) * 2 powi (k - 52)"
proof -
  have "0 < (2::real) powi k" by simp
  then have "x \<noteq> 0" using assms(1) by linarith
  then show ?thesis
    using floor_log2 [OF assms] by (simp add: binary64_def Let_def)
qed

text \<open>The double written \<open>0.11\<close>, and the five additions and the division of the smoother on it.\<close>

lemma double_0_11: "binary64 (11 / 100) = 7926335344172073 / 2 ^ 56"
  by (subst binary64_at [where k = "- 4"]) (simp_all add: roundHalfEven_def power_int_minus)

lemma sum_1: "binary64 (0 + 7926335344172073 / 2 ^ 56) = 7926335344172073 / 2 ^ 56"
  by (subst binary64_at [where k = "- 4"]) (simp_all add: roundHalfEven_def power_int_minus)

lemma sum_2:
  "binary64 (7926335344172073 / 2 ^ 56 + 7926335344172073 / 2 ^ 56)
     = 7926335344172073 / 2 ^ 55"
  by (subst binary64_at [where k = "- 3"]) (simp_all add: roundHalfEven_def power_int_minus)

lemma sum_3:
  "binary64 (7926335344172073 / 2 ^ 55 + 7926335344172073 / 2 ^ 56)
     = 5944751508129055 / 2 ^ 54"
  by (subst binary64_at [where k = "- 2"]) (simp_all add: roundHalfEven_def power_int_minus)

lemma sum_4:
  "binary64 (5944751508129055 / 2 ^ 54 + 7926335344172073 / 2 ^ 56)
     = 7926335344172073 / 2 ^ 54"
  by (subst binary64_at [where k = "- 2"]) (simp_all add: roundHalfEven_def power_int_minus)

lemma sum_5:
  "binary64 (7926335344172073 / 2 ^ 54 + 7926335344172073 / 2 ^ 56)
     = 4953959590107546 / 2 ^ 53"
  by (subst binary64_at [where k = "- 1"]) (simp_all add: roundHalfEven_def power_int_minus)

lemma quotient_5: "binary64 (4953959590107546 / 2 ^ 53 / 5) = 7926335344172074 / 2 ^ 56"
  by (subst binary64_at [where k = "- 4"]) (simp_all add: roundHalfEven_def power_int_minus)

text \<open>Every field of \<open>offCentre\<close> is a double.\<close>

lemma offCentre_doubles:
  "binary64 (faceWidth offCentre) = faceWidth offCentre"
  "binary64 (faceHeight offCentre) = faceHeight offCentre"
  "binary64 (faceWidthToImageRatio offCentre) = faceWidthToImageRatio offCentre"
  "binary64 (faceHeightToImageRatio offCentre) = faceHeightToImageRatio offCentre"
  "binary64 (faceCenterX offCentre) = faceCenterX offCentre"
  "binary64 (faceCenterY offCentre) = faceCenterY offCentre"
  "binary64 (imageWidth offCentre) = imageWidth offCentre"
  "binary64 (imageHeight offCentre) = imageHeight offCentre"
  "binary64 (timestamp offCentre) = timestamp offCentre"
proof -
  have "binary64 320 = 320" "binary64 360 = 360" "binary64 480 = 480"
    by (subst binary64_at [where k = 8], simp_all add: roundHalfEven_def power_int_minus)+
  moreover have "binary64 640 = 640" "binary64 1000 = 1000"
    by (subst binary64_at [where k = 9], simp_all add: roundHalfEven_def power_int_minus)+
  moreover have "binary64 (1 / 2) = 1 / 2" "binary64 (3 / 4) = 3 / 4"
    by (subst binary64_at [where k = "- 1"], simp_all add: roundHalfEven_def power_int_minus)+
  moreover have "binary64 (7926335344172073 / 2 ^ 56) = 7926335344172073 / 2 ^ 56"
    using sum_1 by simp
  moreover have "binary64 0 = 0" by (simp add: binary64_def)
  ultimately show
    "binary64 (faceWidth offCentre) = faceWidth offCentre"
    "binary64 (faceHeight offCentre) = faceHeight offCentre"
    "binary64 (faceWidthToImageRatio offCentre) = faceWidthToImageRatio offCentre"
    "binary64 (faceHeightToImageRatio offCentre) = faceHeightToImageRatio offCentre"
    "binary64 (faceCenterX offCentre) = faceCenterX offCentre"
    "binary64 (faceCenterY offCentre) = faceCenterY offCentre"
    "binary64 (imageWidth offCentre) = imageWidth offCentre"
    "binary64 (imageHeight offCentre) = imageHeight offCentre"
    "binary64 (timestamp offCentre) = timestamp offCentre"
    by (simp_all add: offCentre_def)
qed

lemma smoothed_centre:
  "history \<noteq> [] \<Longrightarrow>
     map_option faceCenterX (smoothWith rnd history)
       = Some (rnd (accumulate rnd faceCenterX history / real (length history)))"
  by (simp add: smoothWith_def Let_def)

text \<open>
  C8 as stated fails in double arithmetic: the buffer of five copies of \<open>offCentre\<close>,
  whose \<open>faceCenterX\<close> is the double \<open>0.11\<close>, is smoothed to a \<open>faceCenterX\<close> one unit in
  the last place above it (\<open>0.11000000000000001\<close>).
\<close>

theorem smoothed_uniform_rounding_counterexample:
  "faceCenterX offCentre = binary64 (11 / 100)
   \<and> faceCenterX offCentre = 7926335344172073 / 2 ^ 56
   \<and> map_option faceCenterX (smoothWith binary64 (replicate 5 offCentre))
       = Some (7926335344172074 / 2 ^ 56)
   \<and> smoothWith binary64 (replicate 5 offCentre) \<noteq> Some offCentre"
proof -
  have centre: "faceCenterX offCentre = 7926335344172073 / 2 ^ 56"
    by (simp add: offCentre_def)
  have five: "replicate 5 offCentre = [offCentre, offCentre, offCentre, offCentre, offCentre]"
    by (simp add: eval_nat_numeral)
  have total: "accumulate binary64 faceCenterX (replicate 5 offCentre)
      = 4953959590107546 / 2 ^ 53"
    by (simp only: accumulate_def five foldl.simps centre sum_1 sum_2 sum_3 sum_4 sum_5)
  have count: "real (length (replicate 5 offCentre)) = 5" and ne: "replicate 5 offCentre \<noteq> []"
    by simp_all
  have smoothed: "map_option faceCenterX (smoothWith binary64 (replicate 5 offCentre))
      = Some (7926335344172074 / 2 ^ 56)"
    by (simp only: smoothed_centre [OF ne] total count quotient_5)
  have differ: "(7926335344172074 / 2 ^ 56 :: real) \<noteq> 7926335344172073 / 2 ^ 56"
    by simp
  have "smoothWith binary64 (replicate 5 offCentre) \<noteq> Some offCentre"
  proof
    assume "smoothWith binary64 (replicate 5 offCentre) = Some offCentre"
    then have "map_option faceCenterX (smoothWith binary64 (replicate 5 offCentre))
        = Some (faceCenterX offCentre)"
      by simp
    with smoothed centre differ show False by simp
  qed
  with centre smoothed double_0_11 show ?thesis by simp
qed

end
